theory Spec2Isabelle
  imports Main "HOL-Library.Word"
begin

section \<open>Values of the canister\<close>

text \<open>
  The canister is TypeScript compiled by azle. A JavaScript string is a sequence of
  UTF-16 code units; \<open>lit\<close> writes an ASCII literal of the source as such a sequence.
  Only emptiness (\<open>!s\<close>), equality (\<open>===\<close>), concatenation (template strings) and
  \<open>trim\<close> are used by the source.
\<close>

type_synonym code_unit = "16 word"
type_synonym js_string = "code_unit list"
type_synonym nat64 = "64 word"

definition lit :: "string \<Rightarrow> js_string" where
  "lit s = map (\<lambda>c. of_nat (of_char c)) s"

text \<open>
  \<open>String.prototype.trim\<close> removes leading and trailing WhiteSpace and LineTerminator
  code points of ECMAScript: TAB, VT, FF, SP, NBSP, ZWNBSP, the category Zs
  (U+1680, U+2000..U+200A, U+202F, U+205F, U+3000), LF, CR, LS and PS.
\<close>

definition is_white_space :: "code_unit \<Rightarrow> bool" where
  "is_white_space c =
     (c \<in> {0x9, 0xA, 0xB, 0xC, 0xD, 0x20, 0xA0, 0x1680, 0x2028, 0x2029, 0x202F, 0x205F,
            0x3000, 0xFEFF}
      \<or> (0x2000 \<le> c \<and> c \<le> 0x200A))"

definition trim :: "js_string \<Rightarrow> js_string" where
  "trim s = rev (dropWhile is_white_space (rev (dropWhile is_white_space s)))"

text \<open>
  A \<open>Principal\<close> is represented by its textual form, the value of \<open>toString()\<close>
  (the textual encoding of a principal is injective, so nothing is lost).
\<close>

datatype Principal = Principal (toString: js_string)

text \<open>
  The counters \<open>yesVotes\<close> and \<open>noVotes\<close> have the TypeScript type \<open>number\<close>, an
  IEEE double. They start at 0 and only ever change by \<open>+= 1\<close>, which is exact below
  \<open>2 ^ 53\<close> and leaves \<open>2 ^ 53\<close> itself unchanged (the sum rounds back to it). The
  counters are therefore naturals up to \<open>2 ^ 53\<close> and \<open>plus_one\<close> is \<open>+= 1\<close> on them.
\<close>

definition plus_one :: "nat \<Rightarrow> nat" where
  "plus_one n = (if n < 2 ^ 53 then n + 1 else n)"

record ProposalPayload =
  title :: js_string
  description :: js_string

text \<open>The field \<open>id\<close> of the source is \<open>id_of\<close> here, and a parameter \<open>id\<close> is \<open>id'\<close>
  (\<open>id\<close> is the identity function of HOL).\<close>

record Proposal =
  owner :: Principal
  id_of :: js_string
  title :: js_string
  description :: js_string
  voters :: "js_string list"
  yesVotes :: nat
  noVotes :: nat
  created_at :: nat64
  updated_at :: "nat64 option"

text \<open>\<open>Result<Proposal, string>\<close>: \<open>Result.Err\<close> carries the message, \<open>Result.Ok\<close> the record.\<close>

type_synonym Result = "js_string + Proposal"

abbreviation Err :: "js_string \<Rightarrow> Result" where
  "Err \<equiv> Inl"

abbreviation Ok :: "Proposal \<Rightarrow> Result" where
  "Ok \<equiv> Inr"

text \<open>
  What a call reads from its environment: \<open>ic.caller()\<close> and \<open>ic.time()\<close>. The value
  of \<open>uuidv4()\<close> is a further argument of \<open>createProposal\<close>.
\<close>

record ic =
  caller :: Principal
  time :: nat64

section \<open>The storage\<close>

text \<open>
  Modelled from the spec: azle's \<open>StableBTreeMap\<close>, a library the canister imports
  and whose code is not among the sources. Section 1 of the specification assumes it to
  provide atomic get, insert and remove by key; it is a finite map here. \<open>get\<close> and
  \<open>remove\<close> are total and return an \<open>Opt\<close>.

  The map is declared with a largest key of 44 bytes and a largest value of 1024 bytes,
  and \<open>createProposal\<close> wraps \<open>insert\<close> in \<open>try\<close>: \<open>insert\<close> either stores the value
  or throws. Which records it throws on, and what, is azle's and is a parameter of the
  model: \<open>thrown k v\<close> is the exception of \<open>insert(k, v)\<close> (as the string that
  \<open>"..." + error\<close> makes of it), or \<open>None\<close> when the value is stored. An \<open>insert\<close>
  that throws stores nothing. Its return value, the previous record, is never read by
  the canister.
\<close>

type_synonym StableBTreeMap = "js_string \<rightharpoonup> Proposal"

type_synonym insert_error = "js_string \<Rightarrow> Proposal \<Rightarrow> js_string option"

definition storage_get :: "StableBTreeMap \<Rightarrow> js_string \<Rightarrow> Proposal option" where
  "storage_get st k = st k"

definition storage_insert ::
  "insert_error \<Rightarrow> StableBTreeMap \<Rightarrow> js_string \<Rightarrow> Proposal \<Rightarrow> js_string + StableBTreeMap" where
  "storage_insert thrown st k v =
     (case thrown k v of Some error \<Rightarrow> Inl error | None \<Rightarrow> Inr (st(k \<mapsto> v)))"

definition storage_remove :: "StableBTreeMap \<Rightarrow> js_string \<Rightarrow> Proposal option \<times> StableBTreeMap" where
  "storage_remove st k = (st k, st(k := None))"

text \<open>
  A call of the canister either returns its \<open>Result\<close> or lets an exception escape.
  \<open>createProposal\<close> of src/unnamed/part_000 catches the exception of \<open>insert\<close>, and
  \<open>getProposal\<close> and \<open>deleteProposal\<close> do not insert: these always return. \<open>voteYes\<close>,
  \<open>voteNo\<close> and \<open>updateProposal\<close>, and \<open>createProposal\<close> of src/src/index.ts, call
  \<open>insert\<close> outside any \<open>try\<close>.
\<close>

datatype outcome = Returned Result | Thrown js_string

section \<open>Object identity\<close>

text \<open>
  \<open>deleteProposal\<close> compares two \<open>Principal\<close> objects with \<open>==\<close>. On two objects
  JavaScript's \<open>==\<close> is identity: it holds only when both operands are the same
  object, whatever they contain; \<open>undefined == object\<close> is false. An object is
  therefore an address together with its contents, and a new object gets an address
  that no live object has. The other operations compare \<open>toString()\<close> values with
  \<open>===\<close>, which is equality of strings, so identity is modelled nowhere else.
\<close>

datatype 'a obj = Obj (address: nat) (contents: 'a)

definition fresh :: "nat list \<Rightarrow> nat" where
  "fresh live = Suc (fold max live 0)"

definition loose_equals :: "'a obj option \<Rightarrow> 'a obj \<Rightarrow> bool" where
  "loose_equals x y = (case x of None \<Rightarrow> False | Some a \<Rightarrow> address a = address y)"

section \<open>The operations of src/unnamed/part_000\<close>

definition getProposal :: "StableBTreeMap \<Rightarrow> js_string \<Rightarrow> Result" where
  "getProposal st id' =
     (if id' = [] then Err (lit ''Invalid id'')
      else case storage_get st id' of
             Some proposal \<Rightarrow> Ok proposal
           | None \<Rightarrow> Err (lit ''a proposal with id='' @ id' @ lit '' not found''))"

definition createProposal ::
  "insert_error \<Rightarrow> ic \<Rightarrow> js_string \<Rightarrow> StableBTreeMap \<Rightarrow> ProposalPayload
     \<Rightarrow> StableBTreeMap \<times> Result" where
  "createProposal thrown env uuidv4 st payload =
     (let title = ProposalPayload.title payload;
          description = ProposalPayload.description payload
      in if title = [] \<or> description = []
         then (st, Err (lit ''Missing required fields''))
         else
           let proposal =
                 \<lparr>owner = caller env, id_of = uuidv4, title = title,
                  description = description, voters = [], yesVotes = 0, noVotes = 0,
                  created_at = time env, updated_at = None\<rparr>
           in (case storage_insert thrown st (id_of proposal) proposal of
                 Inr st' \<Rightarrow> (st', Ok proposal)
               | Inl error \<Rightarrow> (st, Err (lit ''Error inserting proposal: '' @ error))))"

definition voteYes ::
  "insert_error \<Rightarrow> ic \<Rightarrow> StableBTreeMap \<Rightarrow> js_string \<Rightarrow> StableBTreeMap \<times> outcome" where
  "voteYes thrown env st id' =
     (case storage_get st id' of
        Some proposal \<Rightarrow>
          if toString (owner proposal) = toString (caller env)
          then (st, Returned (Err (lit ''Owners cannot vote for their own proposal'')))
          else if toString (caller env) \<in> set (voters proposal)
          then (st, Returned (Err (lit ''Already voted'')))
          else
            let proposal = proposal\<lparr>yesVotes := plus_one (yesVotes proposal)\<rparr>;
                proposal = proposal\<lparr>updated_at := Some (time env)\<rparr>
            in (case storage_insert thrown st (id_of proposal) proposal of
                  Inr st' \<Rightarrow> (st', Returned (Ok proposal))
                | Inl error \<Rightarrow> (st, Thrown error))
      | None \<Rightarrow>
          (st, Returned (Err (lit ''couldn't update a proposal with id='' @ id'
                              @ lit ''. proposal not found''))))"

definition voteNo ::
  "insert_error \<Rightarrow> ic \<Rightarrow> StableBTreeMap \<Rightarrow> js_string \<Rightarrow> StableBTreeMap \<times> outcome" where
  "voteNo thrown env st id' =
     (case storage_get st id' of
        Some proposal \<Rightarrow>
          if toString (owner proposal) = toString (caller env)
          then (st, Returned (Err (lit ''Owners cannot vote for their own proposal'')))
          else if toString (caller env) \<in> set (voters proposal)
          then (st, Returned (Err (lit ''Already voted'')))
          else
            let proposal = proposal\<lparr>noVotes := plus_one (noVotes proposal)\<rparr>;
                proposal = proposal\<lparr>updated_at := Some (time env)\<rparr>
            in (case storage_insert thrown st (id_of proposal) proposal of
                  Inr st' \<Rightarrow> (st', Returned (Ok proposal))
                | Inl error \<Rightarrow> (st, Thrown error))
      | None \<Rightarrow>
          (st, Returned (Err (lit ''couldn't update a proposal with id='' @ id'
                              @ lit ''. proposal not found''))))"

text \<open>
  \<open>isValidPayload\<close>: the payload is decoded from Candid text fields, so
  \<open>typeof title !== "string"\<close> is false and drops out of each disjunction.
\<close>

definition isValidPayload :: "ProposalPayload \<Rightarrow> bool" where
  "isValidPayload payload =
     (let title = ProposalPayload.title payload;
          description = ProposalPayload.description payload
      in if title = [] \<or> trim title = [] then False
         else if description = [] \<or> trim description = [] then False
         else True)"

definition updateProposal ::
  "insert_error \<Rightarrow> ic \<Rightarrow> StableBTreeMap \<Rightarrow> js_string \<Rightarrow> ProposalPayload
     \<Rightarrow> StableBTreeMap \<times> outcome" where
  "updateProposal thrown env st id' payload =
     (if \<not> isValidPayload payload then (st, Returned (Err (lit ''Invalid payload'')))
      else case storage_get st id' of
             Some proposal \<Rightarrow>
               let updatedProposal =
                     proposal\<lparr>title := ProposalPayload.title payload,
                              description := ProposalPayload.description payload,
                              updated_at := Some (time env)\<rparr>
               in (case storage_insert thrown st (id_of proposal) updatedProposal of
                     Inr st' \<Rightarrow> (st', Returned (Ok updatedProposal))
                   | Inl error \<Rightarrow> (st, Thrown error))
           | None \<Rightarrow>
               (st, Returned (Err (lit ''couldn't update a proposal with id='' @ id'
                                   @ lit ''. proposal not found''))))"

text \<open>
  \<open>deleteProposal(id, user)\<close>. The argument \<open>user\<close> is an object built when the call's
  arguments are decoded, before the body runs. \<open>proposalStorage.get(id)\<close> decodes the
  stored record into new objects on every call, so \<open>proposal.Some?.owner\<close> is an object
  built after \<open>user\<close> (or \<open>undefined\<close> when the proposal is absent). The test
  \<open>proposal.Some?.owner == user\<close> is \<open>loose_equals\<close> on these two.
\<close>

definition deleteProposal ::
  "StableBTreeMap \<Rightarrow> js_string \<Rightarrow> Principal \<Rightarrow> StableBTreeMap \<times> Result" where
  "deleteProposal st id' user_value =
     (let user = Obj (fresh []) user_value
      in if id' = [] then (st, Err (lit ''id is required''))
         else
           let proposal = storage_get st id';
               proposal_owner =
                 map_option (\<lambda>p. Obj (fresh [address user]) (owner p)) proposal
           in if loose_equals proposal_owner user
              then (case storage_remove st id' of
                      (Some deletedProposal, st') \<Rightarrow> (st', Ok deletedProposal)
                    | (None, st') \<Rightarrow>
                        (st', Err (lit ''couldn't delete a proposal with id='' @ id'
                                   @ lit ''. proposal not found.'')))
              else (st, Err (lit ''couldn't delete a proposal ,proposal not found.'')))"

section \<open>The operations of src/src/index.ts\<close>

text \<open>
  The second source file is another revision of the same canister. Its \<open>getProposal\<close>
  has no check of the id. Its \<open>createProposal\<close> calls \<open>insert\<close> outside any \<open>try\<close>,
  the votes have the owner check commented out, \<open>updateProposal\<close> does not validate,
  and \<open>deleteProposal\<close> takes no \<open>user\<close>.
\<close>

definition createProposal_index ::
  "insert_error \<Rightarrow> ic \<Rightarrow> js_string \<Rightarrow> StableBTreeMap \<Rightarrow> ProposalPayload
     \<Rightarrow> StableBTreeMap \<times> outcome" where
  "createProposal_index thrown env uuidv4 st payload =
     (let title = ProposalPayload.title payload;
          description = ProposalPayload.description payload
      in if title = [] \<or> description = []
         then (st, Returned (Err (lit ''Missing required fields'')))
         else
           let proposal =
                 \<lparr>owner = caller env, id_of = uuidv4, title = title,
                  description = description, voters = [], yesVotes = 0, noVotes = 0,
                  created_at = time env, updated_at = None\<rparr>
           in (case storage_insert thrown st (id_of proposal) proposal of
                 Inr st' \<Rightarrow> (st', Returned (Ok proposal))
               | Inl error \<Rightarrow> (st, Thrown error)))"

definition voteYes_index ::
  "insert_error \<Rightarrow> ic \<Rightarrow> StableBTreeMap \<Rightarrow> js_string \<Rightarrow> StableBTreeMap \<times> outcome" where
  "voteYes_index thrown env st id' =
     (case storage_get st id' of
        Some proposal \<Rightarrow>
          let hasVoted = filter (\<lambda>voter. voter = toString (caller env)) (voters proposal)
          in if length hasVoted > 0
             then (st, Returned (Err (lit ''Already voted'')))
             else
               let updatedProposal =
                     proposal\<lparr>yesVotes := plus_one (yesVotes proposal),
                              updated_at := Some (time env)\<rparr>
               in (case storage_insert thrown st (id_of proposal) updatedProposal of
                     Inr st' \<Rightarrow> (st', Returned (Ok updatedProposal))
                   | Inl error \<Rightarrow> (st, Thrown error))
      | None \<Rightarrow>
          (st, Returned (Err (lit ''couldn't update a proposal with id='' @ id'
                              @ lit ''. proposal not found''))))"

definition voteNo_index ::
  "insert_error \<Rightarrow> ic \<Rightarrow> StableBTreeMap \<Rightarrow> js_string \<Rightarrow> StableBTreeMap \<times> outcome" where
  "voteNo_index thrown env st id' =
     (case storage_get st id' of
        Some proposal \<Rightarrow>
          let hasVoted = filter (\<lambda>voter. voter = toString (caller env)) (voters proposal)
          in if length hasVoted > 0
             then (st, Returned (Err (lit ''Already voted'')))
             else
               let updatedProposal =
                     proposal\<lparr>noVotes := plus_one (noVotes proposal),
                              updated_at := Some (time env)\<rparr>
               in (case storage_insert thrown st (id_of proposal) updatedProposal of
                     Inr st' \<Rightarrow> (st', Returned (Ok updatedProposal))
                   | Inl error \<Rightarrow> (st, Thrown error))
      | None \<Rightarrow>
          (st, Returned (Err (lit ''couldn't update a proposal with id='' @ id'
                              @ lit ''. proposal not found''))))"

definition updateProposal_index ::
  "insert_error \<Rightarrow> ic \<Rightarrow> StableBTreeMap \<Rightarrow> js_string \<Rightarrow> ProposalPayload
     \<Rightarrow> StableBTreeMap \<times> outcome" where
  "updateProposal_index thrown env st id' payload =
     (case storage_get st id' of
        Some proposal \<Rightarrow>
          let updatedProposal =
                proposal\<lparr>title := ProposalPayload.title payload,
                         description := ProposalPayload.description payload,
                         updated_at := Some (time env)\<rparr>
          in (case storage_insert thrown st (id_of proposal) updatedProposal of
                Inr st' \<Rightarrow> (st', Returned (Ok updatedProposal))
              | Inl error \<Rightarrow> (st, Thrown error))
      | None \<Rightarrow>
          (st, Returned (Err (lit ''couldn't update a proposal with id='' @ id'
                              @ lit ''. proposal not found''))))"

definition deleteProposal_index :: "StableBTreeMap \<Rightarrow> js_string \<Rightarrow> StableBTreeMap \<times> Result" where
  "deleteProposal_index st id' =
     (case storage_remove st id' of
        (Some deletedProposal, st') \<Rightarrow> (st', Ok deletedProposal)
      | (None, st') \<Rightarrow>
          (st', Err (lit ''couldn't delete a proposal with id='' @ id'
                     @ lit ''. proposal not found.'')))"

section \<open>The key of a record is its id\<close>

definition keyed_by_id :: "StableBTreeMap \<Rightarrow> bool" where
  "keyed_by_id st = (\<forall>k p. st k = Some p \<longrightarrow> id_of p = k)"

section \<open>A store to run the operations on\<close>

text \<open>
  A storage for the examples. Its \<open>insert\<close> throws on a record whose title and
  description together have more than 1024 code units: whatever the encoding, such a
  value is larger than the 1024 bytes the map is declared with. It stores every other
  record. The text of its exception stands for azle's.
\<close>

definition small_storage :: insert_error where
  "small_storage k v =
     (if 1024 < length (title v) + length (description v)
      then Some (lit ''ValueTooLarge'') else None)"

definition alice :: Principal where
  "alice = Principal (lit ''alice'')"

definition bob :: Principal where
  "bob = Principal (lit ''bob'')"

definition as_alice :: ic where
  "as_alice = \<lparr>caller = alice, time = 100\<rparr>"

definition as_bob :: ic where
  "as_bob = \<lparr>caller = bob, time = 200\<rparr>"

definition budget :: ProposalPayload where
  "budget = \<lparr>ProposalPayload.title = lit ''Budget'',
             ProposalPayload.description = lit ''Spend less''\<rparr>"

definition long_budget :: ProposalPayload where
  "long_budget = \<lparr>ProposalPayload.title = replicate 1025 0x61,
                  ProposalPayload.description = lit ''Spend less''\<rparr>"

definition budget_proposal :: Proposal where
  "budget_proposal =
     \<lparr>owner = alice, id_of = lit ''p1'', title = lit ''Budget'',
      description = lit ''Spend less'', voters = [], yesVotes = 0, noVotes = 0,
      created_at = 100, updated_at = None\<rparr>"

definition one_proposal :: StableBTreeMap where
  "one_proposal = Map.empty(lit ''p1'' \<mapsto> budget_proposal)"

section \<open>Facts shared by the proofs\<close>

lemmas storage_defs = storage_get_def storage_insert_def storage_remove_def Let_def

lemmas sample_defs =
  alice_def bob_def as_alice_def as_bob_def budget_def long_budget_def budget_proposal_def
  one_proposal_def small_storage_def

lemma fresh_not_live: "fresh live \<notin> set live"
proof
  assume "fresh live \<in> set live"
  then have "fresh live \<le> Max (set (0 # live))"
    by (intro Max_ge) simp_all
  then show False
    by (simp only: Max.set_eq_fold fresh_def)
qed

lemma create_one_proposal:
  "createProposal small_storage as_alice (lit ''p1'') Map.empty budget
     = (one_proposal, Ok budget_proposal)"
  by (simp add: createProposal_def sample_defs storage_defs lit_def)

section \<open>Votes\<close>

text \<open>
  A vote that succeeds changes the counter and \<open>updated_at\<close> and nothing else: neither
  \<open>voteYes\<close> nor \<open>voteNo\<close> ever writes \<open>voters\<close>, in either source file.
\<close>

lemma voteYes_success:
  assumes "voteYes thrown env st id' = (st', Returned (Ok p'))"
  shows "\<exists>p. st id' = Some p \<and> caller env \<noteq> owner p
           \<and> toString (caller env) \<notin> set (voters p)
           \<and> p' = p\<lparr>yesVotes := plus_one (yesVotes p), updated_at := Some (time env)\<rparr>
           \<and> st' = st(id_of p \<mapsto> p')"
  using assms
  by (auto simp: voteYes_def storage_defs Principal.expand
      split: option.splits if_splits sum.splits)

lemma voteNo_success:
  assumes "voteNo thrown env st id' = (st', Returned (Ok p'))"
  shows "\<exists>p. st id' = Some p \<and> caller env \<noteq> owner p
           \<and> toString (caller env) \<notin> set (voters p)
           \<and> p' = p\<lparr>noVotes := plus_one (noVotes p), updated_at := Some (time env)\<rparr>
           \<and> st' = st(id_of p \<mapsto> p')"
  using assms
  by (auto simp: voteNo_def storage_defs Principal.expand
      split: option.splits if_splits sum.splits)

lemma vote_keeps_voters:
  assumes "st id' = Some p"
    and "voteYes thrown env st id' = (st', Returned (Ok p'))
         \<or> voteNo thrown env st id' = (st', Returned (Ok p'))"
  shows "voters p' = voters p"
  using assms by (auto dest!: voteYes_success voteNo_success)

text \<open>
  C1. The claim: after any sequence of successful votes starting from creation,
  \<open>yesVotes + noVotes\<close> is the number of entries of \<open>voters\<close>. The code at the
  shortest such sequence: alice creates a proposal and bob votes yes. The stored record
  then has one yes vote, no no vote and an empty \<open>voters\<close>.
\<close>

theorem C1_one_vote_no_voter:
  "map_option (\<lambda>p. (yesVotes p, noVotes p, voters p))
     (fst (voteYes small_storage as_bob
             (fst (createProposal small_storage as_alice (lit ''p1'') Map.empty budget))
             (lit ''p1''))
        (lit ''p1''))
   = Some (1, 0, [])"
  by (simp add: createProposal_def voteYes_def sample_defs storage_defs lit_def plus_one_def)

text \<open>
  C2. The claim: a successful vote of a caller who is neither the owner nor in
  \<open>voters\<close> adds the caller to \<open>voters\<close>, increments the counter by one, sets
  \<open>updated_at\<close>, persists and returns the record. The code on bob's vote on alice's new
  proposal: the counter, \<open>updated_at\<close>, the stored and the returned record are as
  claimed, but \<open>voters\<close> of the record is still empty, for \<open>voteYes\<close> and \<open>voteNo\<close>.
\<close>

theorem C2_vote_does_not_record_voter:
  "voteYes small_storage as_bob one_proposal (lit ''p1'')
     = (one_proposal(lit ''p1'' \<mapsto> budget_proposal\<lparr>yesVotes := 1, updated_at := Some 200\<rparr>),
        Returned (Ok (budget_proposal\<lparr>yesVotes := 1, updated_at := Some 200\<rparr>)))
   \<and> voteNo small_storage as_bob one_proposal (lit ''p1'')
     = (one_proposal(lit ''p1'' \<mapsto> budget_proposal\<lparr>noVotes := 1, updated_at := Some 200\<rparr>),
        Returned (Ok (budget_proposal\<lparr>noVotes := 1, updated_at := Some 200\<rparr>)))
   \<and> voters (budget_proposal\<lparr>yesVotes := 1, updated_at := Some 200\<rparr>) = []
   \<and> voters (budget_proposal\<lparr>noVotes := 1, updated_at := Some 200\<rparr>) = []"
  by (simp add: voteYes_def voteNo_def sample_defs storage_defs lit_def plus_one_def)

text \<open>
  C3. The claim: a second vote of the same caller on the same proposal fails with
  "Already voted" and leaves the counters unchanged. The code on bob voting yes twice,
  and on bob voting yes and then no: the second call succeeds and counts again.
\<close>

theorem C3_second_vote_succeeds:
  "snd (voteYes small_storage as_bob
          (fst (voteYes small_storage as_bob one_proposal (lit ''p1''))) (lit ''p1''))
     = Returned (Ok (budget_proposal\<lparr>yesVotes := 2, updated_at := Some 200\<rparr>))
   \<and> snd (voteNo small_storage as_bob
          (fst (voteYes small_storage as_bob one_proposal (lit ''p1''))) (lit ''p1''))
     = Returned (Ok (budget_proposal\<lparr>yesVotes := 1, noVotes := 1, updated_at := Some 200\<rparr>))"
  by (simp add: voteYes_def voteNo_def sample_defs storage_defs lit_def plus_one_def)

text \<open>
  In src/unnamed/part_000 a vote, yes or no, of the owner of the stored proposal fails
  with the message "Owners cannot vote for their own proposal", and the store is as it
  was.
\<close>

lemma owner_cannot_vote:
  assumes "st id' = Some p" and "caller env = owner p"
  shows "voteYes thrown env st id'
           = (st, Returned (Err (lit ''Owners cannot vote for their own proposal'')))"
    and "voteNo thrown env st id'
           = (st, Returned (Err (lit ''Owners cannot vote for their own proposal'')))"
  using assms by (simp_all add: voteYes_def voteNo_def storage_defs)

text \<open>
  C4. The claim: a vote of the owner on the owner's proposal fails and does not modify
  the proposal. The code of src/src/index.ts, where the owner check of both votes is
  commented out, on alice voting on her own proposal: the vote is counted, stored and
  returned, for \<open>voteYes\<close> and \<open>voteNo\<close>.
\<close>

theorem C4_index_owner_votes:
  "owner budget_proposal = caller as_alice
   \<and> voteYes_index small_storage as_alice one_proposal (lit ''p1'')
     = (one_proposal(lit ''p1'' \<mapsto> budget_proposal\<lparr>yesVotes := 1, updated_at := Some 100\<rparr>),
        Returned (Ok (budget_proposal\<lparr>yesVotes := 1, updated_at := Some 100\<rparr>)))
   \<and> voteNo_index small_storage as_alice one_proposal (lit ''p1'')
     = (one_proposal(lit ''p1'' \<mapsto> budget_proposal\<lparr>noVotes := 1, updated_at := Some 100\<rparr>),
        Returned (Ok (budget_proposal\<lparr>noVotes := 1, updated_at := Some 100\<rparr>)))"
  by (simp add: voteYes_index_def voteNo_index_def sample_defs storage_defs lit_def
      plus_one_def)

text \<open>For a caller who is not the owner the two revisions agree.\<close>

lemma index_votes_agree:
  assumes "st id' = Some p" and "caller env \<noteq> owner p"
  shows "voteYes_index thrown env st id' = voteYes thrown env st id'"
    and "voteNo_index thrown env st id' = voteNo thrown env st id'"
  using assms
  by (auto simp: voteYes_index_def voteYes_def voteNo_index_def voteNo_def storage_defs
      Principal.expand filter_empty_conv split: option.splits)

section \<open>Creation\<close>




text \<open>
  Nothing in \<open>createProposal\<close> looks the id up: were \<open>uuidv4()\<close> to return an id that
  is a key, the record stored under it would be replaced.
\<close>

lemma createProposal_replaces:
  "createProposal small_storage as_bob (lit ''p1'') one_proposal budget
     = (Map.empty(lit ''p1'' \<mapsto> budget_proposal\<lparr>owner := bob, created_at := 200\<rparr>),
        Ok (budget_proposal\<lparr>owner := bob, created_at := 200\<rparr>))"
  by (simp add: createProposal_def sample_defs storage_defs lit_def)

section \<open>Deletion\<close>

lemma deleteProposal_empty_id:
  "deleteProposal st [] user = (st, Err (lit ''id is required''))"
  by (simp add: deleteProposal_def)

text \<open>
  The object \<open>proposal.Some?.owner\<close> is never the object \<open>user\<close>, so the branch that
  calls \<open>proposalStorage.remove\<close> is never taken: for every id that is not empty,
  every store and every requester, the call fails with the message of the \<open>else\<close>
  branch.
\<close>

lemma deleteProposal_never_removes:
  "id' \<noteq> [] \<Longrightarrow>
   deleteProposal st id' user
     = (st, Err (lit ''couldn't delete a proposal ,proposal not found.''))"
  by (simp add: deleteProposal_def loose_equals_def fresh_def Let_def split: option.splits)

lemma deleteProposal_index_removes:
  "st id' = Some p \<Longrightarrow> deleteProposal_index st id' = (st(id' := None), Ok p)"
  by (simp add: deleteProposal_index_def storage_defs)

text \<open>
  C6. The claim: \<open>deleteProposal\<close> fails on an empty id, on an absent proposal and for
  a requester who is not the owner, and for the owner it removes and returns the
  record, after which \<open>getProposal\<close> fails. The code on the owner's call: alice deletes
  her own proposal. The call fails with the same message as for an absent proposal, the
  store is as it was, and \<open>getProposal\<close> still returns the record.
\<close>

theorem C6_owner_cannot_delete:
  "deleteProposal one_proposal (lit ''p1'') alice
     = (one_proposal, Err (lit ''couldn't delete a proposal ,proposal not found.''))
   \<and> getProposal one_proposal (lit ''p1'') = Ok budget_proposal
   \<and> owner budget_proposal = alice"
  by (simp add: deleteProposal_def getProposal_def loose_equals_def fresh_def sample_defs
      storage_defs lit_def)

section \<open>Update\<close>

lemma isValidPayload_iff:
  "isValidPayload payload \<longleftrightarrow>
     trim (ProposalPayload.title payload) \<noteq> []
     \<and> trim (ProposalPayload.description payload) \<noteq> []"
  by (auto simp: isValidPayload_def Let_def trim_def)

text \<open>
  In src/unnamed/part_000 \<open>updateProposal\<close> fails with "Invalid payload" when the
  title or the description is empty or blank after trimming, and fails when the proposal
  is absent; in both cases the store is as it was.
\<close>

lemma updateProposal_fails:
  "(ProposalPayload.title payload = [] \<or> trim (ProposalPayload.title payload) = []
      \<or> ProposalPayload.description payload = []
      \<or> trim (ProposalPayload.description payload) = [] \<longrightarrow>
      updateProposal thrown env st id' payload
        = (st, Returned (Err (lit ''Invalid payload''))))
   \<and> (st id' = None \<longrightarrow>
      updateProposal thrown env st id' payload =
        (st, Returned (Err (if isValidPayload payload
                            then lit ''couldn't update a proposal with id='' @ id'
                                 @ lit ''. proposal not found''
                            else lit ''Invalid payload''))))"
  by (auto simp: updateProposal_def isValidPayload_def storage_defs)

text \<open>
  C7. The claim: \<open>updateProposal\<close> fails on a payload whose title or description is
  empty or blank, and a failed call leaves the stored record unchanged. The code of
  src/src/index.ts, which has no validation, on an update of alice's proposal with a
  blank title, and with an empty one: the call succeeds and the title is stored.
\<close>

theorem C7_index_update_stores_blank_title:
  "updateProposal_index small_storage as_alice one_proposal (lit ''p1'')
       (budget\<lparr>ProposalPayload.title := lit ''  ''\<rparr>)
     = (one_proposal(lit ''p1'' \<mapsto>
          budget_proposal\<lparr>title := lit ''  '', updated_at := Some 100\<rparr>),
        Returned (Ok (budget_proposal\<lparr>title := lit ''  '', updated_at := Some 100\<rparr>)))
   \<and> updateProposal_index small_storage as_alice one_proposal (lit ''p1'')
       (budget\<lparr>ProposalPayload.title := []\<rparr>)
     = (one_proposal(lit ''p1'' \<mapsto>
          budget_proposal\<lparr>title := [], updated_at := Some 100\<rparr>),
        Returned (Ok (budget_proposal\<lparr>title := [], updated_at := Some 100\<rparr>)))"
  by (simp add: updateProposal_index_def sample_defs storage_defs lit_def)

text \<open>
  C8. On a stored proposal \<open>p\<close> and a valid payload, \<open>updateProposal\<close> builds the
  record whose title and description are the payload's, whose \<open>updated_at\<close> is the
  current time, and whose owner, id, voters, counters and \<open>created_at\<close> are those of
  \<open>p\<close>. The call is successful when \<open>insert\<close> does not throw: it then stores this
  record under \<open>p\<close>'s id and returns it. When \<open>insert\<close> throws, its exception escapes
  and the store is as it was.
\<close>

theorem C8_updateProposal_frame:
  assumes "st id' = Some p" and "isValidPayload payload"
  shows "(let p' = \<lparr>owner = owner p, id_of = id_of p,
                   title = ProposalPayload.title payload,
                   description = ProposalPayload.description payload,
                   voters = voters p, yesVotes = yesVotes p, noVotes = noVotes p,
                   created_at = created_at p, updated_at = Some (time env)\<rparr>
         in updateProposal thrown env st id' payload
              = (case thrown (id_of p) p' of
                   None \<Rightarrow> (st(id_of p \<mapsto> p'), Returned (Ok p'))
                 | Some error \<Rightarrow> (st, Thrown error)))"
  using assms
  by (cases p) (simp add: updateProposal_def storage_defs split: option.splits)

theorem C8_updateProposal_frame_witness:
  "isValidPayload (budget\<lparr>ProposalPayload.title := lit ''Taxes''\<rparr>)
   \<and> updateProposal small_storage as_bob one_proposal (lit ''p1'')
       (budget\<lparr>ProposalPayload.title := lit ''Taxes''\<rparr>)
     = (one_proposal(lit ''p1'' \<mapsto>
          budget_proposal\<lparr>title := lit ''Taxes'', updated_at := Some 200\<rparr>),
        Returned (Ok (budget_proposal\<lparr>title := lit ''Taxes'', updated_at := Some 200\<rparr>)))"
  using C8_updateProposal_frame
      [of one_proposal "lit ''p1''" budget_proposal
          "budget\<lparr>ProposalPayload.title := lit ''Taxes''\<rparr>" as_bob small_storage]
  by (simp add: sample_defs lit_def trim_def is_white_space_def isValidPayload_def Let_def)

text \<open>\<open>updateProposal\<close> of src/src/index.ts builds the same record, for every payload.\<close>

lemma index_update_frame:
  assumes "st id' = Some p"
  shows "(let p' = \<lparr>owner = owner p, id_of = id_of p,
                   title = ProposalPayload.title payload,
                   description = ProposalPayload.description payload,
                   voters = voters p, yesVotes = yesVotes p, noVotes = noVotes p,
                   created_at = created_at p, updated_at = Some (time env)\<rparr>
         in updateProposal_index thrown env st id' payload
              = (case thrown (id_of p) p' of
                   None \<Rightarrow> (st(id_of p \<mapsto> p'), Returned (Ok p'))
                 | Some error \<Rightarrow> (st, Thrown error)))"
  using assms
  by (cases p) (simp add: updateProposal_index_def storage_defs split: option.splits)

section \<open>Failures\<close>

text \<open>
  Whenever an operation returns a failure or lets an exception escape, the store it
  leaves is the store it was called on.
\<close>

lemma failure_keeps_store:
  shows "createProposal thrown env uuid st payload = (st', Err msg) \<Longrightarrow> st' = st"
    and "voteYes thrown env st id' = (st', Returned (Err msg)) \<Longrightarrow> st' = st"
    and "voteNo thrown env st id' = (st', Returned (Err msg)) \<Longrightarrow> st' = st"
    and "updateProposal thrown env st id' payload = (st', Returned (Err msg)) \<Longrightarrow> st' = st"
    and "deleteProposal st id' user = (st', Err msg) \<Longrightarrow> st' = st"
    and "voteYes thrown env st id' = (st', Thrown e) \<Longrightarrow> st' = st"
    and "voteNo thrown env st id' = (st', Thrown e) \<Longrightarrow> st' = st"
    and "updateProposal thrown env st id' payload = (st', Thrown e) \<Longrightarrow> st' = st"
proof -
  show "createProposal thrown env uuid st payload = (st', Err msg) \<Longrightarrow> st' = st"
    by (auto simp: createProposal_def storage_defs split: if_splits option.splits)
  show "voteYes thrown env st id' = (st', Returned (Err msg)) \<Longrightarrow> st' = st"
    by (auto simp: voteYes_def storage_defs split: option.splits if_splits)
  show "voteNo thrown env st id' = (st', Returned (Err msg)) \<Longrightarrow> st' = st"
    by (auto simp: voteNo_def storage_defs split: option.splits if_splits)
  show "updateProposal thrown env st id' payload = (st', Returned (Err msg)) \<Longrightarrow> st' = st"
    by (auto simp: updateProposal_def storage_defs split: option.splits if_splits)
  show "deleteProposal st id' user = (st', Err msg) \<Longrightarrow> st' = st"
    by (cases "id' = []") (auto simp: deleteProposal_empty_id deleteProposal_never_removes)
  show "voteYes thrown env st id' = (st', Thrown e) \<Longrightarrow> st' = st"
    by (auto simp: voteYes_def storage_defs split: option.splits if_splits)
  show "voteNo thrown env st id' = (st', Thrown e) \<Longrightarrow> st' = st"
    by (auto simp: voteNo_def storage_defs split: option.splits if_splits)
  show "updateProposal thrown env st id' payload = (st', Thrown e) \<Longrightarrow> st' = st"
    by (auto simp: updateProposal_def storage_defs split: option.splits if_splits)
qed

lemma index_failure_keeps_store:
  shows "createProposal_index thrown env uuid st payload = (st', Returned (Err msg))
           \<Longrightarrow> st' = st"
    and "voteYes_index thrown env st id' = (st', Returned (Err msg)) \<Longrightarrow> st' = st"
    and "voteNo_index thrown env st id' = (st', Returned (Err msg)) \<Longrightarrow> st' = st"
    and "updateProposal_index thrown env st id' payload = (st', Returned (Err msg))
           \<Longrightarrow> st' = st"
    and "deleteProposal_index st id' = (st', Err msg) \<Longrightarrow> st' = st"
  by (auto simp: createProposal_index_def voteYes_index_def voteNo_index_def
      updateProposal_index_def deleteProposal_index_def storage_defs
      split: option.splits if_splits)

text \<open>
  An exception escapes \<open>createProposal\<close> of src/src/index.ts, and \<open>voteYes\<close>,
  \<open>voteNo\<close> and \<open>updateProposal\<close>, exactly when the call passes its checks and
  \<open>insert\<close> throws on the record it built.
\<close>

lemma index_create_escapes_iff_insert_throws:
  "snd (createProposal_index thrown env uuid st payload) = Thrown e \<longleftrightarrow>
     (ProposalPayload.title payload \<noteq> [] \<and> ProposalPayload.description payload \<noteq> []
      \<and> thrown uuid
            \<lparr>owner = caller env, id_of = uuid, title = ProposalPayload.title payload,
             description = ProposalPayload.description payload, voters = [],
             yesVotes = 0, noVotes = 0, created_at = time env, updated_at = None\<rparr>
          = Some e)"
  by (auto simp: createProposal_index_def storage_defs split: option.splits)


lemma escapes_iff_insert_throws:
  shows "snd (voteYes thrown env st id') = Thrown e \<longleftrightarrow>
           (\<exists>p. st id' = Some p \<and> caller env \<noteq> owner p
                \<and> toString (caller env) \<notin> set (voters p)
                \<and> thrown (id_of p)
                     (p\<lparr>yesVotes := plus_one (yesVotes p), updated_at := Some (time env)\<rparr>)
                   = Some e)"
    and "snd (voteNo thrown env st id') = Thrown e \<longleftrightarrow>
           (\<exists>p. st id' = Some p \<and> caller env \<noteq> owner p
                \<and> toString (caller env) \<notin> set (voters p)
                \<and> thrown (id_of p)
                     (p\<lparr>noVotes := plus_one (noVotes p), updated_at := Some (time env)\<rparr>)
                   = Some e)"
    and "snd (updateProposal thrown env st id' payload) = Thrown e \<longleftrightarrow>
           (isValidPayload payload
            \<and> (\<exists>p. st id' = Some p
                  \<and> thrown (id_of p)
                       (p\<lparr>title := ProposalPayload.title payload,
                           description := ProposalPayload.description payload,
                           updated_at := Some (time env)\<rparr>)
                     = Some e))"
  by (auto simp: voteYes_def voteNo_def updateProposal_def storage_defs Principal.expand
      split: option.splits if_splits)

lemma dropWhile_replicate:
  "0 < n \<Longrightarrow> \<not> P x \<Longrightarrow> dropWhile P (replicate n x) = replicate n x"
  by (cases n) auto

lemma trim_replicate:
  "0 < n \<Longrightarrow> \<not> is_white_space x \<Longrightarrow> trim (replicate n x) = replicate n x"
  by (simp add: trim_def dropWhile_replicate)

text \<open>
  C9. The claim: every operation returns its failures as a tagged value and throws
  none, and a failure leaves the store as it was. The code on an update of alice's
  proposal whose title has 1025 code units, on a storage that throws on such a record:
  \<open>updateProposal\<close> calls \<open>insert\<close> outside any \<open>try\<close>, and the exception escapes the
  call. \<open>createProposal\<close>, which wraps the same \<open>insert\<close> in \<open>try\<close>, returns the
  failure on the same payload. The store is unchanged in both.
\<close>

theorem C9_update_lets_exception_escape:
  "isValidPayload long_budget
   \<and> updateProposal small_storage as_alice one_proposal (lit ''p1'') long_budget
     = (one_proposal, Thrown (lit ''ValueTooLarge''))
   \<and> createProposal small_storage as_alice (lit ''p2'') one_proposal long_budget
     = (one_proposal, Err (lit ''Error inserting proposal: ValueTooLarge''))"
proof -
  have v: "isValidPayload long_budget"
    by (simp add: isValidPayload_iff long_budget_def trim_replicate is_white_space_def
        trim_def lit_def)
  have u: "updateProposal small_storage as_alice one_proposal (lit ''p1'') long_budget
             = (one_proposal, Thrown (lit ''ValueTooLarge''))"
    using v
    by (simp add: updateProposal_def storage_defs one_proposal_def budget_proposal_def
        long_budget_def small_storage_def lit_def)
  have c: "createProposal small_storage as_alice (lit ''p2'') one_proposal long_budget
             = (one_proposal, Err (lit ''Error inserting proposal: ValueTooLarge''))"
    by (simp add: createProposal_def storage_defs long_budget_def small_storage_def lit_def)
  show ?thesis
    using v u c by simp
qed

section \<open>Keys\<close>

lemma keyed_by_id_insert:
  "keyed_by_id st \<Longrightarrow> id_of p = k \<Longrightarrow> storage_insert thrown st k p = Inr st'
     \<Longrightarrow> keyed_by_id st'"
  by (auto simp: keyed_by_id_def storage_insert_def split: option.splits if_splits)

text \<open>
  C10. In the empty store every record is stored under its own id, and each of
  \<open>createProposal\<close>, \<open>voteYes\<close>, \<open>voteNo\<close>, \<open>updateProposal\<close> and \<open>deleteProposal\<close> keeps
  it so: every insert is under \<open>proposal.id\<close> of the record it stores.
\<close>

theorem C10_keyed_by_id:
  "keyed_by_id Map.empty
   \<and> (keyed_by_id st \<longrightarrow>
        keyed_by_id (fst (createProposal thrown env uuid st payload))
      \<and> keyed_by_id (fst (voteYes thrown env st id'))
      \<and> keyed_by_id (fst (voteNo thrown env st id'))
      \<and> keyed_by_id (fst (updateProposal thrown env st id' payload))
      \<and> keyed_by_id (fst (deleteProposal st id' user)))"
proof -
  have e: "keyed_by_id Map.empty"
    by (simp add: keyed_by_id_def)
  have "keyed_by_id (fst (createProposal thrown env uuid st payload))" if "keyed_by_id st"
    using that
    by (auto simp: createProposal_def Let_def split: sum.splits
        intro: keyed_by_id_insert [rotated 2])
  moreover have "keyed_by_id (fst (voteYes thrown env st id'))" if "keyed_by_id st"
    using that
    by (auto simp: voteYes_def storage_get_def Let_def split: option.splits sum.splits
        intro: keyed_by_id_insert [rotated 2])
  moreover have "keyed_by_id (fst (voteNo thrown env st id'))" if "keyed_by_id st"
    using that
    by (auto simp: voteNo_def storage_get_def Let_def split: option.splits sum.splits
        intro: keyed_by_id_insert [rotated 2])
  moreover have "keyed_by_id (fst (updateProposal thrown env st id' payload))"
    if "keyed_by_id st"
    using that
    by (auto simp: updateProposal_def storage_get_def Let_def split: option.splits sum.splits
        intro: keyed_by_id_insert [rotated 2])
  moreover have "keyed_by_id (fst (deleteProposal st id' user))" if "keyed_by_id st"
    using that
    by (cases "id' = []")
      (simp_all add: deleteProposal_empty_id deleteProposal_never_removes)
  ultimately show ?thesis
    using e by blast
qed

theorem C10_keyed_by_id_witness:
  "keyed_by_id one_proposal
   \<and> keyed_by_id (fst (createProposal small_storage as_bob (lit ''p2'') one_proposal budget))
   \<and> keyed_by_id (fst (voteYes small_storage as_bob one_proposal (lit ''p1'')))
   \<and> keyed_by_id (fst (voteNo small_storage as_bob one_proposal (lit ''p1'')))
   \<and> keyed_by_id (fst (updateProposal small_storage as_alice one_proposal (lit ''p1'') budget))
   \<and> keyed_by_id (fst (deleteProposal one_proposal (lit ''p1'') alice))"
proof -
  have "keyed_by_id one_proposal"
    by (simp add: keyed_by_id_def sample_defs)
  then show ?thesis
    using C10_keyed_by_id [of one_proposal] by blast
qed

text \<open>The operations of src/src/index.ts keep it so as well, the removal included.\<close>

lemma index_keyed_by_id:
  assumes "keyed_by_id st"
  shows "keyed_by_id (fst (createProposal_index thrown env uuid st payload))"
    and "keyed_by_id (fst (voteYes_index thrown env st id'))"
    and "keyed_by_id (fst (voteNo_index thrown env st id'))"
    and "keyed_by_id (fst (updateProposal_index thrown env st id' payload))"
    and "keyed_by_id (fst (deleteProposal_index st id'))"
proof -
  show "keyed_by_id (fst (createProposal_index thrown env uuid st payload))"
    using assms
    by (auto simp: createProposal_index_def Let_def split: sum.splits
        intro: keyed_by_id_insert [rotated 2])
  show "keyed_by_id (fst (voteYes_index thrown env st id'))"
    using assms
    by (auto simp: voteYes_index_def storage_get_def Let_def split: option.splits sum.splits
        intro: keyed_by_id_insert [rotated 2])
  show "keyed_by_id (fst (voteNo_index thrown env st id'))"
    using assms
    by (auto simp: voteNo_index_def storage_get_def Let_def split: option.splits sum.splits
        intro: keyed_by_id_insert [rotated 2])
  show "keyed_by_id (fst (updateProposal_index thrown env st id' payload))"
    using assms
    by (auto simp: updateProposal_index_def storage_get_def Let_def
        split: option.splits sum.splits intro: keyed_by_id_insert [rotated 2])
  show "keyed_by_id (fst (deleteProposal_index st id'))"
    using assms
    by (auto simp: deleteProposal_index_def storage_remove_def keyed_by_id_def
        split: option.splits)
qed

end
